theory Spec2Isabelle
  imports Complex_Main "HOL-Library.Word"
begin

section \<open>JavaScript values, objects and the heap\<close>

text \<open>
  The dispatcher \<^verbatim>\<open>from(input, optsOrEncoding)\<close> (\<^verbatim>\<open>function from\<close> in
  \<^verbatim>\<open>src/example.js\<close>) classifies a dynamically typed value. Values are modelled by a datatype with one constructor per
  \<^verbatim>\<open>typeof\<close> class; objects live in a heap (a list, the address is the index) so that
  identity, aliasing and in-place mutation are visible. An object has data properties
  (no getters, setters or proxies, and nothing inherited but what is named below); it may
  be non-extensible (\<^verbatim>\<open>Object.preventExtensions\<close>, \<^verbatim>\<open>seal\<close>, \<^verbatim>\<open>freeze\<close>) and some
  of its properties may be read-only (all of them after \<^verbatim>\<open>Object.freeze\<close>).

  A number is not-a-number, an infinity or a finite value; only comparisons with zero
  and truncation to an integer are needed, so finite values are rationals. A string is a
  list of characters: the dispatcher tests whether it is empty, searches the protocol (a
  sequence of ASCII characters) and otherwise only passes it on.
\<close>

type_synonym byte = "8 word"

datatype jsnum = NaN | PosInf | NegInf | Fin rat

datatype funref = UserFn nat | ObjectProtoFn string

datatype jsval =
    JUndefined
  | JNull
  | JBool bool
  | JNum jsnum
  | JStr string
  | JSymbol nat
  | JBigInt int
  | JFun funref
  | JObj nat

datatype objkind =
    Plain
  | Array "jsval list"
  | Buffer "byte list"
  | ArrayBuffer "byte list"

record jsobj =
  kind :: objkind
  props :: "string \<rightharpoonup> jsval"
  extensible :: bool
  read_only :: "string list"

text \<open>
  Property read \<^verbatim>\<open>ob.name\<close>. Own properties are in \<open>props\<close>; the \<^verbatim>\<open>length\<close> of an
  array or a buffer comes from its contents. None of the other names the dispatcher
  reads (\<^verbatim>\<open>encoding\<close>, \<^verbatim>\<open>file\<close>, \<^verbatim>\<open>byteOffset\<close>, \<^verbatim>\<open>type\<close>, \<^verbatim>\<open>data\<close>, \<^verbatim>\<open>readable\<close>,
  \<^verbatim>\<open>writable\<close>, \<^verbatim>\<open>statable\<close>, \<^verbatim>\<open>deletable\<close>) is inherited from \<^verbatim>\<open>Object.prototype\<close>;
  the \<^verbatim>\<open>byteOffset\<close> accessor of a typed array is an entry of \<open>props\<close> here.
\<close>

definition own_prop :: "jsobj \<Rightarrow> string \<Rightarrow> jsval" where
  "own_prop ob name = (case props ob name of Some v \<Rightarrow> v | None \<Rightarrow> JUndefined)"

definition get_prop :: "jsobj \<Rightarrow> string \<Rightarrow> jsval" where
  "get_prop ob name =
     (case kind ob of
        Array xs \<Rightarrow>
          if name = ''length'' then JNum (Fin (of_nat (length xs))) else own_prop ob name
      | Buffer bs \<Rightarrow>
          if name = ''length'' then JNum (Fin (of_nat (length bs))) else own_prop ob name
      | _ \<Rightarrow> own_prop ob name)"

definition set_prop :: "jsobj \<Rightarrow> string \<Rightarrow> jsval \<Rightarrow> jsobj" where
  "set_prop ob name v = ob\<lparr>props := (props ob)(name \<mapsto> v)\<rparr>"

text \<open>
  The assignment \<^verbatim>\<open>ob.name = v\<close>. The source file has no \<^verbatim>\<open>'use strict'\<close>, so the
  assignment never throws: a write to a read-only property, or of a new property to a
  non-extensible object, is silently dropped.
\<close>

definition can_assign :: "jsobj \<Rightarrow> string \<Rightarrow> bool" where
  "can_assign ob name =
     (case props ob name of
        Some v \<Rightarrow> name \<notin> set (read_only ob)
      | None \<Rightarrow> extensible ob)"

definition assign_prop :: "jsobj \<Rightarrow> string \<Rightarrow> jsval \<Rightarrow> jsobj" where
  "assign_prop ob name v = (if can_assign ob name then set_prop ob name v else ob)"

text \<open>Truthiness (\<^verbatim>\<open>ToBoolean\<close>) and the \<^verbatim>\<open>typeof\<close> tests the source uses.\<close>

fun truthy :: "jsval \<Rightarrow> bool" where
  "truthy JUndefined = False"
| "truthy JNull = False"
| "truthy (JBool b) = b"
| "truthy (JNum NaN) = False"
| "truthy (JNum (Fin q)) = (q \<noteq> 0)"
| "truthy (JNum _) = True"
| "truthy (JStr s) = (s \<noteq> [])"
| "truthy (JBigInt i) = (i \<noteq> 0)"
| "truthy _ = True"

fun is_string :: "jsval \<Rightarrow> bool" where
  "is_string (JStr _) = True"
| "is_string _ = False"

fun is_function :: "jsval \<Rightarrow> bool" where
  "is_function (JFun _) = True"
| "is_function _ = False"

fun is_object :: "jsval \<Rightarrow> bool" where
  "is_object (JObj _) = True"
| "is_object _ = False"

section \<open>Options normalisation\<close>

definition DEFAULT_ENCODING :: string where
  "DEFAULT_ENCODING = ''utf8''"

text \<open>
  \<^verbatim>\<open>let opts = {}\<close>, replaced by \<^verbatim>\<open>{ encoding: optsOrEncoding }\<close> for a string and by
  the caller's own object for a non-null object. The result is the address of \<open>opts\<close>
  and the heap; a fresh record is allocated at the end of the heap.
\<close>

definition select_opts :: "jsval \<Rightarrow> jsobj list \<Rightarrow> nat \<times> jsobj list" where
  "select_opts optsOrEncoding h =
     (case optsOrEncoding of
        JObj a \<Rightarrow> (a, h)
      | JStr s \<Rightarrow> (length h, h @ [\<lparr>kind = Plain, props = [''encoding'' \<mapsto> JStr s],
            extensible = True, read_only = []\<rparr>])
      | _ \<Rightarrow> (length h, h @ [\<lparr>kind = Plain, props = Map.empty,
            extensible = True, read_only = []\<rparr>]))"

text \<open>
  \<^verbatim>\<open>if (!opts.encoding || 'string' !== typeof opts.encoding) opts.encoding = DEFAULT_ENCODING\<close>:
  an assignment to the object \<open>opts\<close> refers to, which is the caller's object when the
  caller passed one. The write is dropped when that object does not take it.
\<close>

definition default_encoding :: "nat \<Rightarrow> jsobj list \<Rightarrow> jsobj list" where
  "default_encoding a h =
     (if \<not> truthy (get_prop (h ! a) ''encoding'') \<or> \<not> is_string (get_prop (h ! a) ''encoding'')
      then h[a := assign_prop (h ! a) ''encoding'' (JStr DEFAULT_ENCODING)]
      else h)"

definition normalize_opts :: "jsval \<Rightarrow> jsobj list \<Rightarrow> nat \<times> jsobj list" where
  "normalize_opts optsOrEncoding h =
     (case select_opts optsOrEncoding h of (a, h1) \<Rightarrow> (a, default_encoding a h1))"

text \<open>A reference handed to the dispatcher points into the heap.\<close>

fun valid_ref :: "jsobj list \<Rightarrow> jsval \<Rightarrow> bool" where
  "valid_ref h (JObj a) = (a < length h)"
| "valid_ref h _ = True"

section \<open>The platform and the collaborators\<close>

text \<open>
  Errors are values. \<open>Raised\<close> is an exception thrown in the dispatcher's own frame (by
  a built-in it calls, or by calling something that is not a function); \<open>CalleeThrew\<close>
  is an exception that a provider, a factory function or the storage constructor threw.
\<close>

datatype jserror = TypeError | RangeError | URIError

datatype callee_result = Returned jsval | Threw jsval

datatype outcome = Return jsval | Raised jserror | CalleeThrew jsval


text \<open>The dispatcher's own input and output: the synchronous probes and the debug log.\<close>

datatype io_event = FsAccess string | FsStat string | DebugLog

text \<open>The two fields of \<^verbatim>\<open>url.parse(input)\<close> the source reads; \<^verbatim>\<open>null\<close> is \<open>None\<close>.\<close>

record parsed_url =
  protocol :: "string option"
  pathname :: "string option"

text \<open>
  The state a call works on: the heap, the registry \<^verbatim>\<open>providers\<close> (own properties of
  the exported object; a callee may reassign them) and the log of the dispatcher's I/O.
\<close>

record state =
  heap :: "jsobj list"
  providers :: "string \<rightharpoonup> jsval"
  trace :: "io_event list"

text \<open>
  What the source imports and does not define is a parameter: \<^verbatim>\<open>is-browser\<close>,
  \<^verbatim>\<open>url.parse\<close> (it may throw), \<^verbatim>\<open>fs.accessSync\<close> (\<open>False\<close>: it throws),
  \<^verbatim>\<open>fs.statSync(input).isFile()\<close> (\<open>None\<close>: it throws), the conversions of
  \<^verbatim>\<open>Buffer.from\<close> that depend on an encoding table or on coercions of arbitrary values,
  the largest buffer length \<^verbatim>\<open>buffer.constants.MAX_LENGTH\<close>, whether the memory for a
  buffer of a given length can be had (\<open>can_allocate\<close>), the constructor
  \<^verbatim>\<open>random-access-storage\<close>, and the behaviour of every function value (\<open>call\<close>: result,
  new heap, new registry).
\<close>

record env =
  isBrowser :: bool
  url_parse :: "string \<Rightarrow> jserror + parsed_url"
  fs_accessSync :: "string \<Rightarrow> bool"
  fs_statSync_isFile :: "string \<Rightarrow> bool option"
  Buffer_from_string :: "string \<Rightarrow> jsval \<Rightarrow> jserror + byte list"
  Buffer_from_other :: "jsobj list \<Rightarrow> jsval \<Rightarrow> jsval \<Rightarrow> jserror + byte list"
  Buffer_from_arraybuffer :: "byte list \<Rightarrow> jsval \<Rightarrow> jsval \<Rightarrow> jserror + byte list"
  kMaxLength :: nat
  can_allocate :: "nat \<Rightarrow> bool"
  ras :: funref
  call :: "funref \<Rightarrow> jsval list \<Rightarrow> jsobj list \<Rightarrow> (string \<rightharpoonup> jsval)
             \<Rightarrow> callee_result \<times> jsobj list \<times> (string \<rightharpoonup> jsval)"

subsection \<open>The registry\<close>

text \<open>
  \<^verbatim>\<open>providers\<close> is a plain object, so \<^verbatim>\<open>name in providers\<close> and \<^verbatim>\<open>providers[name]\<close>
  also see what it inherits from \<^verbatim>\<open>Object.prototype\<close>: these functions, and the
  accessor \<^verbatim>\<open>__proto__\<close> (whose value is an object; the source only tests whether a
  looked-up value is a function).
\<close>

definition object_prototype_functions :: "string list" where
  "object_prototype_functions =
     [''constructor'', ''hasOwnProperty'', ''isPrototypeOf'', ''propertyIsEnumerable'',
      ''toLocaleString'', ''toString'', ''valueOf'', ''__defineGetter__'',
      ''__defineSetter__'', ''__lookupGetter__'', ''__lookupSetter__'']"

definition registry_has :: "(string \<rightharpoonup> jsval) \<Rightarrow> string \<Rightarrow> bool" where
  "registry_has reg name =
     (case reg name of
        Some v \<Rightarrow> True
      | None \<Rightarrow> name \<in> set object_prototype_functions \<or> name = ''__proto__'')"

definition registry_get :: "(string \<rightharpoonup> jsval) \<Rightarrow> string \<Rightarrow> jsval" where
  "registry_get reg name =
     (case reg name of
        Some v \<Rightarrow> v
      | None \<Rightarrow>
          if name \<in> set object_prototype_functions then JFun (ObjectProtoFn name)
          else JUndefined)"

text \<open>
  A call \<^verbatim>\<open>fv(args)\<close>: a value that is not a function makes the call throw a
  \<^verbatim>\<open>TypeError\<close>; a function is run by the environment.
\<close>

definition invoke :: "env \<Rightarrow> jsval \<Rightarrow> jsval list \<Rightarrow> state \<Rightarrow> outcome \<times> state" where
  "invoke env fv args st =
     (case fv of
        JFun f \<Rightarrow>
          (case call env f args (heap st) (providers st) of
             (Returned v, h', p') \<Rightarrow> (Return v, st\<lparr>heap := h', providers := p'\<rparr>)
           | (Threw e, h', p') \<Rightarrow> (CalleeThrew e, st\<lparr>heap := h', providers := p'\<rparr>))
      | _ \<Rightarrow> (Raised TypeError, st))"

subsection \<open>Buffers\<close>

definition new_buffer :: "byte list \<Rightarrow> jsobj" where
  "new_buffer bs = \<lparr>kind = Buffer bs, props = Map.empty,
        extensible = True, read_only = []\<rparr>"

text \<open>
  \<^verbatim>\<open>Buffer.alloc(size)\<close>: a \<^verbatim>\<open>RangeError\<close> unless \<^verbatim>\<open>0 <= size <= MAX_LENGTH\<close>,
  and a \<^verbatim>\<open>RangeError\<close> (\<^verbatim>\<open>Array buffer allocation failed\<close>) when the memory cannot be
  had; otherwise a zero-filled buffer whose length is the integer part of \<open>size\<close>.
\<close>

definition Buffer_alloc :: "env \<Rightarrow> jsnum \<Rightarrow> jserror + byte list" where
  "Buffer_alloc env n =
     (case n of
        Fin q \<Rightarrow>
          if 0 \<le> q \<and> q \<le> of_nat (kMaxLength env) \<and> can_allocate env (nat \<lfloor>q\<rfloor>)
          then Inr (replicate (nat \<lfloor>q\<rfloor>) 0)
          else Inl RangeError
      | _ \<Rightarrow> Inl RangeError)"

text \<open>\<^verbatim>\<open>ToUint8\<close> of a number, as a typed array stores it: truncate, then wrap.\<close>

definition ToUint8 :: "jsval \<Rightarrow> byte" where
  "ToUint8 v =
     (case v of
        JNum (Fin q) \<Rightarrow> word_of_int (if 0 \<le> q then \<lfloor>q\<rfloor> else \<lceil>q\<rceil>)
      | _ \<Rightarrow> 0)"

section \<open>The predicates of the source\<close>

text \<open>\<^verbatim>\<open>'number' === typeof input && input === input\<close>\<close>

definition isNumber :: "jsval \<Rightarrow> bool" where
  "isNumber input = (case input of JNum n \<Rightarrow> n \<noteq> NaN | _ \<Rightarrow> False)"

text \<open>\<^verbatim>\<open>input >= 0\<close> for a number.\<close>

definition ge_zero :: "jsval \<Rightarrow> bool" where
  "ge_zero input =
     (case input of
        JNum (Fin q) \<Rightarrow> 0 \<le> q
      | JNum PosInf \<Rightarrow> True
      | _ \<Rightarrow> False)"

text \<open>\<^verbatim>\<open>Array.isArray(v)\<close>; a reference outside the heap denotes no object.\<close>

definition is_array :: "jsobj list \<Rightarrow> jsval \<Rightarrow> bool" where
  "is_array h v =
     (case v of
        JObj a \<Rightarrow> a < length h \<and> (case kind (h ! a) of Array xs \<Rightarrow> True | _ \<Rightarrow> False)
      | _ \<Rightarrow> False)"

text \<open>
  \<^verbatim>\<open>isBufferLike(input)\<close>: a \<^verbatim>\<open>Buffer\<close>, an \<^verbatim>\<open>ArrayBuffer\<close>, an object whose
  \<^verbatim>\<open>type\<close> is \<^verbatim>\<open>'Buffer'\<close> and whose \<^verbatim>\<open>data\<close> is an array, or an array whose
  elements all pass \<^verbatim>\<open>isNumber\<close> (\<^verbatim>\<open>every\<close> holds of the empty array).
\<close>

definition isBufferLike :: "jsobj list \<Rightarrow> jsval \<Rightarrow> bool" where
  "isBufferLike h input =
     (case input of
        JObj a \<Rightarrow>
          (case kind (h ! a) of
             Buffer bs \<Rightarrow> True
           | ArrayBuffer bs \<Rightarrow> True
           | Plain \<Rightarrow>
               get_prop (h ! a) ''type'' = JStr ''Buffer''
               \<and> is_array h (get_prop (h ! a) ''data'')
           | Array xs \<Rightarrow>
               (get_prop (h ! a) ''type'' = JStr ''Buffer''
                \<and> is_array h (get_prop (h ! a) ''data''))
               \<or> list_all isNumber xs)
      | _ \<Rightarrow> False)"

text \<open>
  \<^verbatim>\<open>Buffer.from(input, opts.encoding)\<close> for a buffer-like object: a buffer is
  copied, an array of numbers is stored element by element (the empty buffer needs no
  memory; otherwise the allocation may fail as in \<^verbatim>\<open>Buffer.alloc\<close>); the other shapes
  go through coercions of the platform.
\<close>

definition copy_bytes :: "env \<Rightarrow> byte list \<Rightarrow> jserror + byte list" where
  "copy_bytes env bs =
     (if bs = [] \<or> can_allocate env (length bs) then Inr bs else Inl RangeError)"

definition Buffer_from_object :: "env \<Rightarrow> jsobj list \<Rightarrow> jsval \<Rightarrow> jsval \<Rightarrow> jserror + byte list" where
  "Buffer_from_object env h input enc =
     (case input of
        JObj a \<Rightarrow>
          (case kind (h ! a) of
             Buffer bs \<Rightarrow> copy_bytes env bs
           | Array xs \<Rightarrow>
               if list_all isNumber xs then copy_bytes env (map ToUint8 xs)
               else Buffer_from_other env h input enc
           | _ \<Rightarrow> Buffer_from_other env h input enc)
      | _ \<Rightarrow> Buffer_from_other env h input enc)"

text \<open>The regular expressions \<^verbatim>\<open>/https?:/\<close> and \<^verbatim>\<open>/file:/\<close> carry no anchor:
  \<^verbatim>\<open>test\<close> searches the whole string for the literal.\<close>

fun starts_with :: "string \<Rightarrow> string \<Rightarrow> bool" where
  "starts_with [] s = True"
| "starts_with (p # ps) [] = False"
| "starts_with (p # ps) (c # cs) = (p = c \<and> starts_with ps cs)"

fun regex_search :: "string \<Rightarrow> string \<Rightarrow> bool" where
  "regex_search pat [] = starts_with pat []"
| "regex_search pat (c # cs) = (starts_with pat (c # cs) \<or> regex_search pat cs)"

definition test_https :: "string \<Rightarrow> bool" where
  "test_https p = (regex_search ''http:'' p \<or> regex_search ''https:'' p)"

definition test_file :: "string \<Rightarrow> bool" where
  "test_file p = regex_search ''file:'' p"

section \<open>The dispatcher\<close>

text \<open>
  Each rule of \<^verbatim>\<open>from\<close> is a function that either returns (\<open>Some\<close> outcome) or falls
  through to the next statement (\<open>None\<close>), with the state it leaves behind. \<open>oa\<close> is
  the address of the normalised \<open>opts\<close>.
\<close>

definition log :: "io_event list \<Rightarrow> state \<Rightarrow> state" where
  "log evs st = st\<lparr>trace := trace st @ evs\<rparr>"

text \<open>
  \<^verbatim>\<open>providers.memory(<buffer expression>)\<close>: the argument is evaluated first, so an
  error of the buffer construction is raised before anything is called; otherwise the
  new buffer is allocated and the registry's \<^verbatim>\<open>memory\<close> entry is called with it.
\<close>

definition memory_from :: "env \<Rightarrow> jserror + byte list \<Rightarrow> state \<Rightarrow> outcome \<times> state" where
  "memory_from env r st =
     (case r of
        Inl e \<Rightarrow> (Raised e, st)
      | Inr bs \<Rightarrow>
          invoke env (registry_get (providers st) ''memory'') [JObj (length (heap st))]
            (st\<lparr>heap := heap st @ [new_buffer bs]\<rparr>))"

text \<open>Step 2: \<^verbatim>\<open>if (input.length && true === opts.file) return providers.file(input, opts)\<close>\<close>

definition file_flag_rule :: "env \<Rightarrow> string \<Rightarrow> nat \<Rightarrow> state \<Rightarrow> outcome option \<times> state" where
  "file_flag_rule env input oa st =
     (if input \<noteq> [] \<and> get_prop (heap st ! oa) ''file'' = JBool True then
        (case invoke env (registry_get (providers st) ''file'') [JStr input, JObj oa] st of
           (out, st') \<Rightarrow> (Some out, st'))
      else (None, st))"

text \<open>Step 3: \<^verbatim>\<open>if (protocol) { ... }\<close> with its three tests in the source's order.\<close>

definition protocol_rules ::
  "env \<Rightarrow> string \<Rightarrow> parsed_url \<Rightarrow> nat \<Rightarrow> state \<Rightarrow> outcome option \<times> state" where
  "protocol_rules env input u oa st =
     (case protocol u of
        None \<Rightarrow> (None, st)
      | Some p \<Rightarrow>
          if p = [] then (None, st)
          else if test_https p then
            (case invoke env (registry_get (providers st) ''http'') [JStr input, JObj oa] st of
               (out, st') \<Rightarrow> (Some out, st'))
          else if test_file p then
            (case invoke env (registry_get (providers st) ''file'')
                    [case pathname u of None \<Rightarrow> JNull | Some q \<Rightarrow> JStr q] st of
               (out, st') \<Rightarrow> (Some out, st'))
          else if registry_has (providers st) (butlast p)
                  \<and> is_function (registry_get (providers st) (butlast p)) then
            (case invoke env (registry_get (providers st) (butlast p)) [JStr input, JObj oa] st of
               (out, st') \<Rightarrow> (Some out, st'))
          else (None, st))"

text \<open>
  Step 4: the probe, outside the browser. Everything between \<^verbatim>\<open>try\<close> and \<^verbatim>\<open>catch\<close>
  is guarded, the call \<^verbatim>\<open>providers.file(input)\<close> included: whatever it throws is
  logged and the next statement runs.
\<close>

definition local_file_rule :: "env \<Rightarrow> string \<Rightarrow> state \<Rightarrow> outcome option \<times> state" where
  "local_file_rule env input st =
     (if isBrowser env then (None, st)
      else if \<not> fs_accessSync env input then (None, log [FsAccess input, DebugLog] st)
      else
        (case fs_statSync_isFile env input of
           None \<Rightarrow> (None, log [FsAccess input, FsStat input, DebugLog] st)
         | Some False \<Rightarrow> (None, log [FsAccess input, FsStat input] st)
         | Some True \<Rightarrow>
             (case invoke env (registry_get (providers st) ''file'') [JStr input]
                     (log [FsAccess input, FsStat input] st) of
                (Return v, st') \<Rightarrow> (Some (Return v), st')
              | (Raised e, st') \<Rightarrow> (None, log [DebugLog] st')
              | (CalleeThrew e, st') \<Rightarrow> (None, log [DebugLog] st'))))"

text \<open>Step 5: \<^verbatim>\<open>if (input.length > 0) return providers.memory(Buffer.from(input, opts.encoding))\<close>\<close>

definition string_memory_rule :: "env \<Rightarrow> string \<Rightarrow> nat \<Rightarrow> state \<Rightarrow> outcome option \<times> state" where
  "string_memory_rule env input oa st =
     (if input \<noteq> [] then
        (case memory_from env
                (Buffer_from_string env input (get_prop (heap st ! oa) ''encoding'')) st of
           (out, st') \<Rightarrow> (Some out, st'))
      else (None, st))"

text \<open>Steps 4 and 5: the string rules after the protocol block.\<close>

definition string_after_protocol ::
  "env \<Rightarrow> string \<Rightarrow> nat \<Rightarrow> state \<Rightarrow> outcome option \<times> state" where
  "string_after_protocol env input oa st =
     (case local_file_rule env input st of
        (Some out, st') \<Rightarrow> (Some out, st')
      | (None, st') \<Rightarrow> string_memory_rule env input oa st')"

text \<open>
  The block \<^verbatim>\<open>if ('string' === typeof input) { ... }\<close>. \<^verbatim>\<open>url.parse(input)\<close> is its
  first statement and is not guarded.
\<close>

definition string_input :: "env \<Rightarrow> string \<Rightarrow> nat \<Rightarrow> state \<Rightarrow> outcome option \<times> state" where
  "string_input env input oa st =
     (case url_parse env input of
        Inl e \<Rightarrow> (Some (Raised e), st)
      | Inr u \<Rightarrow>
          (case file_flag_rule env input oa st of
             (Some out, st') \<Rightarrow> (Some out, st')
           | (None, st') \<Rightarrow>
               (case protocol_rules env input u oa st' of
                  (Some out, st'') \<Rightarrow> (Some out, st'')
                | (None, st'') \<Rightarrow> string_after_protocol env input oa st'')))"

text \<open>\<^verbatim>\<open>return providers.memory(Buffer.alloc(input))\<close>\<close>

definition number_rule :: "env \<Rightarrow> jsval \<Rightarrow> state \<Rightarrow> outcome \<times> state" where
  "number_rule env input st =
     memory_from env
       (case input of JNum n \<Rightarrow> Buffer_alloc env n | _ \<Rightarrow> Inl TypeError) st"

text \<open>
  The two branches under \<^verbatim>\<open>if (isBufferLike(input))\<close>: first the buffer expression
  of each, then the call.
\<close>

definition buffer_bytes :: "env \<Rightarrow> jsval \<Rightarrow> nat \<Rightarrow> state \<Rightarrow> jserror + byte list" where
  "buffer_bytes env input oa st =
     (case input of
        JObj a \<Rightarrow>
          (case kind (heap st ! a) of
             ArrayBuffer bs \<Rightarrow>
               Buffer_from_arraybuffer env bs
                 (if truthy (get_prop (heap st ! oa) ''byteOffset'')
                  then get_prop (heap st ! oa) ''byteOffset'' else JNum (Fin 0))
                 (get_prop (heap st ! oa) ''length'')
           | _ \<Rightarrow>
               Buffer_from_object env (heap st) input (get_prop (heap st ! oa) ''encoding''))
      | _ \<Rightarrow> Buffer_from_object env (heap st) input (get_prop (heap st ! oa) ''encoding''))"

definition buffer_rule :: "env \<Rightarrow> jsval \<Rightarrow> nat \<Rightarrow> state \<Rightarrow> outcome \<times> state" where
  "buffer_rule env input oa st = memory_from env (buffer_bytes env input oa st) st"

text \<open>The branch for a non-null object: the input itself, or \<^verbatim>\<open>ras(input)\<close>.\<close>

definition object_rule :: "env \<Rightarrow> jsval \<Rightarrow> state \<Rightarrow> outcome \<times> state" where
  "object_rule env input st =
     (case input of
        JObj a \<Rightarrow>
          if truthy (get_prop (heap st ! a) ''readable'')
             \<or> truthy (get_prop (heap st ! a) ''writable'')
             \<or> truthy (get_prop (heap st ! a) ''statable'')
             \<or> truthy (get_prop (heap st ! a) ''deletable'')
          then (Return input, st)
          else invoke env (JFun (ras env)) [input] st
      | _ \<Rightarrow> invoke env (JFun (ras env)) [input] st)"

definition default_rule :: "env \<Rightarrow> jsval \<Rightarrow> nat \<Rightarrow> state \<Rightarrow> outcome \<times> state" where
  "default_rule env input oa st =
     invoke env (registry_get (providers st) ''default'') [input, JObj oa] st"

text \<open>
  One activation of \<^verbatim>\<open>from\<close> up to its recursive call: \<open>Inl\<close> is what it returns or
  throws, \<open>Inr\<close> the arguments of \<^verbatim>\<open>from(input(opts), opts)\<close> and the state after
  \<^verbatim>\<open>input(opts)\<close> returned.
\<close>

definition from_body ::
  "env \<Rightarrow> jsval \<Rightarrow> jsval \<Rightarrow> state \<Rightarrow> (outcome \<times> state) + (jsval \<times> jsval \<times> state)" where
  "from_body env input optsOrEncoding st =
     (case normalize_opts optsOrEncoding (heap st) of
        (oa, h1) \<Rightarrow>
          (case (case input of
                   JStr s \<Rightarrow> string_input env s oa (st\<lparr>heap := h1\<rparr>)
                 | _ \<Rightarrow> (None, st\<lparr>heap := h1\<rparr>)) of
             (Some out, st2) \<Rightarrow> Inl (out, st2)
           | (None, st2) \<Rightarrow>
               if isNumber input \<and> ge_zero input then Inl (number_rule env input st2)
               else if isBufferLike (heap st2) input then Inl (buffer_rule env input oa st2)
               else if is_object input then Inl (object_rule env input st2)
               else
                 (case input of
                    JFun f \<Rightarrow>
                      (case call env f [JObj oa] (heap st2) (providers st2) of
                         (Returned v, h3, p3) \<Rightarrow>
                           Inr (v, JObj oa, st2\<lparr>heap := h3, providers := p3\<rparr>)
                       | (Threw e, h3, p3) \<Rightarrow>
                           Inl (CalleeThrew e, st2\<lparr>heap := h3, providers := p3\<rparr>))
                  | _ \<Rightarrow> Inl (default_rule env input oa st2))))"

text \<open>
  \<^verbatim>\<open>from\<close>. The source sets no bound on the chain of factory functions; the fuel
  counts activations, and \<open>None\<close> is a chain longer than the fuel.
\<close>

fun from_fuel :: "nat \<Rightarrow> env \<Rightarrow> jsval \<Rightarrow> jsval \<Rightarrow> state \<Rightarrow> (outcome \<times> state) option" where
  "from_fuel 0 env input optsOrEncoding st = None"
| "from_fuel (Suc fuel) env input optsOrEncoding st =
     (case from_body env input optsOrEncoding st of
        Inl r \<Rightarrow> Some r
      | Inr (v, opts, st') \<Rightarrow> from_fuel fuel env v opts st')"

section \<open>A concrete platform for the examples\<close>

text \<open>
  The examples run on Node.js (not a browser) with one regular file, \<^verbatim>\<open>index.js\<close>,
  and the largest buffer length of current releases, \<open>2 ^ 53 - 1\<close>.
  \<open>test_url_parse\<close> lists what \<^verbatim>\<open>url.parse\<close> returns for the strings the examples
  use. Of the encodings only \<^verbatim>\<open>utf8\<close> is tabulated, for ASCII text (it is also what
  \<^verbatim>\<open>Buffer.from\<close> takes when the encoding is empty or not a string); the examples use
  it and the name \<^verbatim>\<open>bogus\<close>, which \<^verbatim>\<open>Buffer.from\<close> refuses with a \<^verbatim>\<open>TypeError\<close>. The
  memory at hand allows a buffer of up to \<open>2 ^ 32\<close> bytes. Every
  function value behaves like \<open>echo_call\<close>: it changes no existing object and returns a
  new handle that records who was called and with what.
\<close>

definition nth_arg :: "jsval list \<Rightarrow> nat \<Rightarrow> jsval" where
  "nth_arg args i = (if i < length args then args ! i else JUndefined)"

definition echo_handle :: "funref \<Rightarrow> jsval list \<Rightarrow> jsobj" where
  "echo_handle f args =
     \<lparr>kind = Plain,
      props = [''readable'' \<mapsto> JBool True, ''callee'' \<mapsto> JFun f,
               ''arg0'' \<mapsto> nth_arg args 0, ''arg1'' \<mapsto> nth_arg args 1],
                     extensible = True, read_only = []\<rparr>"

definition echo_call ::
  "funref \<Rightarrow> jsval list \<Rightarrow> jsobj list \<Rightarrow> (string \<rightharpoonup> jsval)
     \<Rightarrow> callee_result \<times> jsobj list \<times> (string \<rightharpoonup> jsval)" where
  "echo_call f args h p = (Returned (JObj (length h)), h @ [echo_handle f args], p)"

definition test_url_parse :: "string \<Rightarrow> jserror + parsed_url" where
  "test_url_parse s =
     (if s = ''shttp://host/x'' then Inr \<lparr>protocol = Some ''shttp:'', pathname = Some ''/x''\<rparr>
      else if s = ''data:,hello'' then Inr \<lparr>protocol = Some ''data:'', pathname = Some '',hello''\<rparr>
      else if s = ''constructor:x'' then
        Inr \<lparr>protocol = Some ''constructor:'', pathname = Some ''x''\<rparr>
      else if s = [] then Inr \<lparr>protocol = None, pathname = None\<rparr>
      else Inr \<lparr>protocol = None, pathname = Some s\<rparr>)"

definition utf8_only :: "string \<Rightarrow> jsval \<Rightarrow> jserror + byte list" where
  "utf8_only s enc =
     (if enc = JStr ''utf8'' \<or> enc = JStr [] \<or> \<not> is_string enc
      then Inr (map (\<lambda>c. of_nat (of_char c)) s)
      else Inl TypeError)"

definition test_env :: env where
  "test_env =
     \<lparr>isBrowser = False,
      url_parse = test_url_parse,
      fs_accessSync = (\<lambda>s. s = ''index.js''),
      fs_statSync_isFile = (\<lambda>s. if s = ''index.js'' then Some True else None),
      Buffer_from_string = utf8_only,
      Buffer_from_other = (\<lambda>h v enc. Inl TypeError),
      Buffer_from_arraybuffer = (\<lambda>bs off len. Inr bs),
      kMaxLength = 9007199254740991,
      can_allocate = (\<lambda>n. n \<le> 4294967296),
      ras = UserFn 3,
      call = echo_call\<rparr>"

definition memory_fn :: funref where "memory_fn = UserFn 0"
definition file_fn :: funref where "file_fn = UserFn 1"
definition http_fn :: funref where "http_fn = UserFn 2"

text \<open>The registry as \<^verbatim>\<open>providers.js\<close> exports it.\<close>

definition initial_providers :: "string \<rightharpoonup> jsval" where
  "initial_providers =
     [''memory'' \<mapsto> JFun memory_fn, ''http'' \<mapsto> JFun http_fn,
      ''file'' \<mapsto> JFun file_fn, ''default'' \<mapsto> JFun memory_fn]"

definition initial_state :: "jsobj list \<Rightarrow> state" where
  "initial_state h = \<lparr>heap = h, providers = initial_providers, trace = []\<rparr>"

definition empty_object :: jsobj where
  "empty_object = \<lparr>kind = Plain, props = Map.empty,
        extensible = True, read_only = []\<rparr>"

section \<open>The dispatcher's own errors\<close>



section \<open>What a call may change\<close>








section \<open>Facts about the normalisation\<close>

lemma get_prop_set_prop_other:
  "name \<noteq> name' \<Longrightarrow> get_prop (set_prop ob name' v) name = get_prop ob name"
  by (simp add: get_prop_def own_prop_def set_prop_def split: objkind.splits)

lemma get_prop_set_prop_encoding:
  "get_prop (set_prop ob ''encoding'' v) ''encoding'' = v"
  by (simp add: get_prop_def own_prop_def set_prop_def split: objkind.splits)

lemma kind_set_prop: "kind (set_prop ob name v) = kind ob"
  by (simp add: set_prop_def)

lemma length_default_encoding: "length (default_encoding a h) = length h"
  by (simp add: default_encoding_def assign_prop_def can_assign_def)

lemma kind_default_encoding: "kind (default_encoding a h ! b) = kind (h ! b)"
  by (cases "a < length h")
    (auto simp: default_encoding_def assign_prop_def can_assign_def kind_set_prop nth_list_update list_update_beyond not_less)

lemma get_prop_default_encoding:
  "name \<noteq> ''encoding'' \<Longrightarrow> get_prop (default_encoding a h ! b) name = get_prop (h ! b) name"
  by (cases "a < length h")
    (auto simp: default_encoding_def assign_prop_def can_assign_def get_prop_set_prop_other nth_list_update list_update_beyond not_less)

lemma default_encoding_nonempty:
  assumes "a < length h" and "can_assign (h ! a) ''encoding''"
  shows "\<exists>e. get_prop (default_encoding a h ! a) ''encoding'' = JStr e \<and> e \<noteq> []"
  using assms
  by (cases "get_prop (h ! a) ''encoding''")
    (auto simp: default_encoding_def assign_prop_def get_prop_set_prop_encoding
      DEFAULT_ENCODING_def)

lemma default_encoding_dropped:
  "\<not> can_assign (h ! a) ''encoding'' \<Longrightarrow> default_encoding a h = h"
  by (simp add: default_encoding_def assign_prop_def)

lemma default_encoding_kept:
  "truthy (get_prop (h ! a) ''encoding'') \<Longrightarrow> is_string (get_prop (h ! a) ''encoding'')
     \<Longrightarrow> default_encoding a h = h"
  by (simp add: default_encoding_def)

lemma select_opts_cases:
  "select_opts oe h = (oa, h0) \<Longrightarrow>
     (\<exists>a. oe = JObj a \<and> oa = a \<and> h0 = h) \<or> (oa = length h \<and> (\<exists>ob. h0 = h @ [ob] \<and> kind ob = Plain))"
  by (auto simp: select_opts_def split: jsval.splits)

lemma normalize_opts_length:
  "normalize_opts oe h = (oa, h1) \<Longrightarrow> length h \<le> length h1"
  by (auto simp: normalize_opts_def select_opts_def length_default_encoding split: jsval.splits prod.splits)

lemma normalize_opts_kind:
  "normalize_opts oe h = (oa, h1) \<Longrightarrow> a < length h \<Longrightarrow> kind (h1 ! a) = kind (h ! a)"
  by (auto simp: normalize_opts_def select_opts_def kind_default_encoding nth_append split: jsval.splits prod.splits)

lemma normalize_opts_get_prop:
  "normalize_opts oe h = (oa, h1) \<Longrightarrow> a < length h \<Longrightarrow> name \<noteq> ''encoding'' \<Longrightarrow>
     get_prop (h1 ! a) name = get_prop (h ! a) name"
  by (auto simp: normalize_opts_def select_opts_def get_prop_default_encoding nth_append split: jsval.splits prod.splits)

lemma normalize_opts_valid:
  "normalize_opts oe h = (oa, h1) \<Longrightarrow> valid_ref h oe \<Longrightarrow> oa < length h1"
  by (auto simp: normalize_opts_def select_opts_def length_default_encoding split: jsval.splits prod.splits)

lemma normalize_opts_object:
  "normalize_opts (JObj a) h = (a, default_encoding a h)"
  by (simp add: normalize_opts_def select_opts_def)

lemma normalize_absent:
  "normalize_opts JUndefined [] = (0, [\<lparr>kind = Plain, props = [''encoding'' \<mapsto> JStr ''utf8''],
        extensible = True, read_only = []\<rparr>])"
  by (simp add: normalize_opts_def select_opts_def default_encoding_def assign_prop_def can_assign_def get_prop_def
      own_prop_def set_prop_def DEFAULT_ENCODING_def)

lemma normalize_string_empty_heap:
  "s \<noteq> [] \<Longrightarrow> normalize_opts (JStr s) [] = (0, [\<lparr>kind = Plain, props = [''encoding'' \<mapsto> JStr s],
        extensible = True, read_only = []\<rparr>])"
  by (simp add: normalize_opts_def select_opts_def default_encoding_def assign_prop_def can_assign_def get_prop_def
      own_prop_def set_prop_def)

lemma is_array_normalize:
  assumes "normalize_opts oe h = (oa, h1)"
  shows "is_array h1 v = is_array h v"
proof (cases v)
  case (JObj d)
  show ?thesis
  proof (cases "d < length h")
    case True
    with assms JObj show ?thesis
      using normalize_opts_kind [OF assms True] normalize_opts_length [OF assms]
      by (simp add: is_array_def)
  next
    case False
    obtain h0 where sel: "select_opts oe h = (oa, h0)" and h1: "h1 = default_encoding oa h0"
      using assms by (auto simp: normalize_opts_def split: prod.splits)
    from select_opts_cases [OF sel] have "d < length h1 \<Longrightarrow> kind (h1 ! d) = Plain"
      using False by (auto simp: h1 length_default_encoding kind_default_encoding nth_append)
    with False JObj show ?thesis
      by (auto simp: is_array_def)
  qed
qed (simp_all add: is_array_def)

lemma isBufferLike_normalize:
  assumes "normalize_opts oe h = (oa, h1)" and "a < length h"
  shows "isBufferLike h1 (JObj a) = isBufferLike h (JObj a)"
  using normalize_opts_kind [OF assms] is_array_normalize [OF assms(1)]
    normalize_opts_get_prop [OF assms, of "''type''"]
    normalize_opts_get_prop [OF assms, of "''data''"]
  by (simp add: isBufferLike_def split: objkind.splits)

section \<open>Facts about the rules\<close>

lemma from_fuel_done:
  "from_body env input oe st = Inl r \<Longrightarrow> from_fuel (Suc k) env input oe st = Some r"
  by simp

lemma from_body_object:
  assumes "normalize_opts oe (heap st) = (oa, h1)"
  shows "from_body env (JObj a) oe st =
           Inl (if isBufferLike h1 (JObj a) then buffer_rule env (JObj a) oa (st\<lparr>heap := h1\<rparr>)
                else object_rule env (JObj a) (st\<lparr>heap := h1\<rparr>))"
  using assms by (simp add: from_body_def isNumber_def)

lemma from_body_number:
  assumes "normalize_opts oe (heap st) = (oa, h1)"
  shows "from_body env (JNum n) oe st =
           Inl (if n \<noteq> NaN \<and> ge_zero (JNum n) then number_rule env (JNum n) (st\<lparr>heap := h1\<rparr>)
                else default_rule env (JNum n) oa (st\<lparr>heap := h1\<rparr>))"
  using assms by (simp add: from_body_def isNumber_def isBufferLike_def)

lemma from_body_string:
  assumes "normalize_opts oe (heap st) = (oa, h1)"
  shows "from_body env (JStr s) oe st =
           Inl (case string_input env s oa (st\<lparr>heap := h1\<rparr>) of
                  (Some out, st2) \<Rightarrow> (out, st2)
                | (None, st2) \<Rightarrow> default_rule env (JStr s) oa st2)"
  using assms
  by (simp add: from_body_def isNumber_def isBufferLike_def ge_zero_def split: prod.splits option.splits)

lemma log_nil: "log [] st = st"
  by (simp add: log_def)

lemma local_file_rule_not_file:
  assumes "isBrowser env \<or> \<not> fs_accessSync env s \<or> fs_statSync_isFile env s \<noteq> Some True"
  shows "\<exists>evs. local_file_rule env s st = (None, log evs st)"
proof (cases "isBrowser env")
  case True
  then have "local_file_rule env s st = (None, log [] st)"
    by (simp add: local_file_rule_def log_nil)
  then show ?thesis ..
next
  case False
  show ?thesis
  proof (cases "fs_accessSync env s")
    case no: False
    with False have "local_file_rule env s st = (None, log [FsAccess s, DebugLog] st)"
      by (simp add: local_file_rule_def)
    then show ?thesis ..
  next
    case yes: True
    with False assms have "fs_statSync_isFile env s = None \<or> fs_statSync_isFile env s = Some False"
      by (cases "fs_statSync_isFile env s") auto
    then show ?thesis
    proof
      assume "fs_statSync_isFile env s = None"
      with False yes have "local_file_rule env s st = (None, log [FsAccess s, FsStat s, DebugLog] st)"
        by (simp add: local_file_rule_def)
      then show ?thesis ..
    next
      assume "fs_statSync_isFile env s = Some False"
      with False yes have "local_file_rule env s st = (None, log [FsAccess s, FsStat s] st)"
        by (simp add: local_file_rule_def)
      then show ?thesis ..
    qed
  qed
qed
























section \<open>The frame of a call\<close>
































section \<open>Facts about the example platform\<close>

lemmas platform_defs =
  test_env_def test_url_parse_def utf8_only_def echo_call_def echo_handle_def nth_arg_def
  initial_providers_def initial_state_def empty_object_def memory_fn_def file_fn_def http_fn_def

lemmas rule_defs =
  from_body_def normalize_opts_def select_opts_def default_encoding_def assign_prop_def can_assign_def get_prop_def
  own_prop_def set_prop_def DEFAULT_ENCODING_def isNumber_def ge_zero_def is_array_def
  isBufferLike_def string_input_def file_flag_rule_def protocol_rules_def
  local_file_rule_def string_memory_rule_def string_after_protocol_def number_rule_def
  buffer_rule_def object_rule_def default_rule_def memory_from_def invoke_def log_def
  registry_get_def registry_has_def object_prototype_functions_def test_https_def
  test_file_def Buffer_alloc_def Buffer_from_object_def copy_bytes_def buffer_bytes_def
  new_buffer_def

lemma test_env_fields:
  "isBrowser test_env = False" "url_parse test_env = test_url_parse"
  "fs_accessSync test_env = (\<lambda>s. s = ''index.js'')"
  "fs_statSync_isFile test_env = (\<lambda>s. if s = ''index.js'' then Some True else None)"
  "Buffer_from_string test_env = utf8_only"
  "kMaxLength test_env = 9007199254740991" "ras test_env = UserFn 3"
  "can_allocate test_env = (\<lambda>n. n \<le> 4294967296)"
  "call test_env = echo_call"
  by (simp_all add: test_env_def)

lemma test_url_parse_plain:
  "test_url_parse ''hello'' = Inr \<lparr>protocol = None, pathname = Some ''hello''\<rparr>"
  "test_url_parse ''_hello.txt'' = Inr \<lparr>protocol = None, pathname = Some ''_hello.txt''\<rparr>"
  "test_url_parse ''data:,hello'' = Inr \<lparr>protocol = Some ''data:'', pathname = Some '',hello''\<rparr>"
  by (simp_all add: test_url_parse_def)


section \<open>The claims\<close>

text \<open>
  The part of C1 the code keeps: for a protocol that neither regular expression matches
  and whose registry entry is a function, the custom-protocol rule calls the entry with
  the whole string and the options (unless the \<open>file\<close> rule took the string first).
\<close>

lemma custom_protocol_delegation:
  assumes "url_parse env s = Inr u"
    and "protocol u = Some p" and "p \<noteq> []"
    and "\<not> test_https p" and "\<not> test_file p"
    and "providers st (butlast p) = Some (JFun f)"
    and "normalize_opts optsOrEncoding (heap st) = (oa, h1)"
    and "s = [] \<or> get_prop (h1 ! oa) ''file'' \<noteq> JBool True"
  shows "from_fuel (Suc k) env (JStr s) optsOrEncoding st =
           Some (invoke env (JFun f) [JStr s, JObj oa] (st\<lparr>heap := h1\<rparr>))"
proof -
  let ?st1 = "st\<lparr>heap := h1\<rparr>"
  have flag: "file_flag_rule env s oa ?st1 = (None, ?st1)"
    using assms(8) by (auto simp: file_flag_rule_def)
  have proto: "protocol_rules env s u oa ?st1 =
      (case invoke env (JFun f) [JStr s, JObj oa] ?st1 of (out, st') \<Rightarrow> (Some out, st'))"
    using assms(2-6) by (simp add: protocol_rules_def registry_get_def registry_has_def)
  have "string_input env s oa ?st1 =
      (case invoke env (JFun f) [JStr s, JObj oa] ?st1 of (out, st') \<Rightarrow> (Some out, st'))"
    using assms(1) by (simp add: string_input_def flag proto split: prod.splits option.splits)
  then show ?thesis
    by (simp add: from_body_string [OF assms(7)] split: prod.splits option.splits)
qed

text \<open>
  C1 at the failing input. \<^verbatim>\<open>url.parse('shttp://host/x')\<close> has the protocol
  \<^verbatim>\<open>shttp:\<close>, which is none of \<^verbatim>\<open>http:\<close>, \<^verbatim>\<open>https:\<close>, \<^verbatim>\<open>file:\<close>, and a function is
  registered under \<open>shttp\<close>; the unanchored \<^verbatim>\<open>/https?:/.test(protocol)\<close> finds \<^verbatim>\<open>http:\<close>
  inside it, so the \<open>http\<close> provider is called and the registered function is not.
\<close>

theorem unanchored_http_test_shadows_custom_protocol:
  "from_fuel 1 test_env (JStr ''shttp://host/x'') JUndefined
       ((initial_state [])\<lparr>providers := initial_providers(''shttp'' \<mapsto> JFun (UserFn 7))\<rparr>) =
     Some (Return (JObj 1),
           \<lparr>heap = [\<lparr>kind = Plain, props = [''encoding'' \<mapsto> JStr ''utf8''],
                 extensible = True, read_only = []\<rparr>,
                    echo_handle http_fn [JStr ''shttp://host/x'', JObj 0]],
            providers = initial_providers(''shttp'' \<mapsto> JFun (UserFn 7)),
            trace = []\<rparr>)
   \<and> http_fn \<noteq> UserFn 7
   \<and> protocol (projr (url_parse test_env ''shttp://host/x'')) = Some ''shttp:''
   \<and> providers ((initial_state [])\<lparr>providers := initial_providers(''shttp'' \<mapsto> JFun (UserFn 7))\<rparr>)
        (butlast ''shttp:'') = Some (JFun (UserFn 7))"
  by (simp add: rule_defs initial_state_def test_env_fields test_url_parse_def
      initial_providers_def echo_call_def http_fn_def)

text \<open>
  The lookup \<^verbatim>\<open>protocolName in providers\<close> also finds what the registry inherits:
  nothing is registered under \<open>constructor\<close>, yet \<^verbatim>\<open>'constructor:x'\<close> is handed to the
  inherited function instead of falling through to the string rules.
\<close>

lemma inherited_constructor_is_called:
  "from_fuel 1 test_env (JStr ''constructor:x'') JUndefined (initial_state []) =
     Some (Return (JObj 1),
           \<lparr>heap = [\<lparr>kind = Plain, props = [''encoding'' \<mapsto> JStr ''utf8''],
                 extensible = True, read_only = []\<rparr>,
                    echo_handle (ObjectProtoFn ''constructor'') [JStr ''constructor:x'', JObj 0]],
            providers = initial_providers,
            trace = []\<rparr>)
   \<and> initial_providers ''constructor'' = None"
  by (simp add: rule_defs initial_state_def test_env_fields test_url_parse_def
      initial_providers_def echo_call_def)

text \<open>
  C2, as the code has it. A non-empty string for which \<^verbatim>\<open>url.parse\<close> returns no
  protocol, which is dispatched without \<open>file\<close> being \<open>true\<close>, which the probe does not
  find to be a regular file, and which \<^verbatim>\<open>Buffer.from\<close> converts to the bytes \<open>bs\<close> under
  the active encoding (the \<open>encoding\<close> of the normalised options), is dispatched to the
  \<open>memory\<close> entry of the registry with a new buffer holding \<open>bs\<close>. The only other
  effect is the log of the probe.
\<close>

theorem string_memory_delegation:
  assumes "s \<noteq> []"
    and "normalize_opts optsOrEncoding (heap st) = (oa, h1)"
    and "url_parse env s = Inr u"
    and "protocol u = None \<or> protocol u = Some []"
    and "get_prop (h1 ! oa) ''file'' \<noteq> JBool True"
    and "isBrowser env \<or> \<not> fs_accessSync env s \<or> fs_statSync_isFile env s \<noteq> Some True"
    and "Buffer_from_string env s (get_prop (h1 ! oa) ''encoding'') = Inr bs"
  shows "\<exists>evs. from_fuel (Suc k) env (JStr s) optsOrEncoding st =
           Some (invoke env (registry_get (providers st) ''memory'') [JObj (length h1)]
                   (st\<lparr>heap := h1 @ [new_buffer bs], trace := trace st @ evs\<rparr>))"
proof -
  let ?st1 = "st\<lparr>heap := h1\<rparr>"
  obtain evs where probe: "local_file_rule env s ?st1 = (None, log evs ?st1)"
    using local_file_rule_not_file [OF assms(6)] by blast
  have flag: "file_flag_rule env s oa ?st1 = (None, ?st1)"
    using assms(5) by (simp add: file_flag_rule_def)
  have proto: "protocol_rules env s u oa ?st1 = (None, ?st1)"
    using assms(4) by (auto simp: protocol_rules_def)
  have mem: "string_memory_rule env s oa (log evs ?st1) =
      (case invoke env (registry_get (providers st) ''memory'') [JObj (length h1)]
                   (st\<lparr>heap := h1 @ [new_buffer bs], trace := trace st @ evs\<rparr>) of
         (out, st') \<Rightarrow> (Some out, st'))"
  proof -
    have swap: "st\<lparr>trace := trace st @ evs, heap := h1 @ [new_buffer bs]\<rparr> =
                st\<lparr>heap := h1 @ [new_buffer bs], trace := trace st @ evs\<rparr>"
      by simp
    show ?thesis
      using assms(1,7) by (simp add: string_memory_rule_def memory_from_def log_def swap)
  qed
  have "string_input env s oa ?st1 =
      (case invoke env (registry_get (providers st) ''memory'') [JObj (length h1)]
                   (st\<lparr>heap := h1 @ [new_buffer bs], trace := trace st @ evs\<rparr>) of
         (out, st') \<Rightarrow> (Some out, st'))"
    using assms(3) by (simp add: string_input_def flag proto string_after_protocol_def probe mem)
  then have "from_fuel (Suc k) env (JStr s) optsOrEncoding st =
           Some (invoke env (registry_get (providers st) ''memory'') [JObj (length h1)]
                   (st\<lparr>heap := h1 @ [new_buffer bs], trace := trace st @ evs\<rparr>))"
    by (simp add: from_body_string [OF assms(2)] split: prod.splits)
  then show ?thesis ..
qed

theorem string_memory_delegation_witness:
  "''hello'' \<noteq> [] \<and>
   normalize_opts JUndefined (heap (initial_state [])) =
     (0, [\<lparr>kind = Plain, props = [''encoding'' \<mapsto> JStr ''utf8''],
           extensible = True, read_only = []\<rparr>]) \<and>
   url_parse test_env ''hello'' = Inr \<lparr>protocol = None, pathname = Some ''hello''\<rparr> \<and>
   \<not> fs_accessSync test_env ''hello'' \<and>
   Buffer_from_string test_env ''hello'' (JStr ''utf8'') = Inr [104, 101, 108, 108, 111] \<and>
   (\<exists>evs. from_fuel 1 test_env (JStr ''hello'') JUndefined (initial_state []) =
     Some (Return (JObj 2),
           \<lparr>heap = [\<lparr>kind = Plain, props = [''encoding'' \<mapsto> JStr ''utf8''],
                 extensible = True, read_only = []\<rparr>,
                    new_buffer [104, 101, 108, 108, 111],
                    echo_handle memory_fn [JObj 1]],
            providers = initial_providers,
            trace = evs\<rparr>))"
proof -
  let ?h1 = "[\<lparr>kind = Plain, props = [''encoding'' \<mapsto> JStr ''utf8''],
        extensible = True, read_only = []\<rparr>]"
  let ?u = "\<lparr>protocol = None, pathname = Some ''hello''\<rparr>"
  have a: "''hello'' \<noteq> []" by simp
  have n: "normalize_opts JUndefined (heap (initial_state [])) = (0, ?h1)"
    by (simp add: initial_state_def normalize_absent)
  have p: "url_parse test_env ''hello'' = Inr ?u"
    by (simp add: test_env_fields test_url_parse_plain)
  have np: "protocol ?u = None \<or> protocol ?u = Some []" by simp
  have f: "get_prop (?h1 ! 0) ''file'' \<noteq> JBool True"
    by (simp add: get_prop_def own_prop_def)
  have nf: "\<not> fs_accessSync test_env ''hello''"
    by (simp add: test_env_fields)
  then have probe: "isBrowser test_env \<or> \<not> fs_accessSync test_env ''hello''
      \<or> fs_statSync_isFile test_env ''hello'' \<noteq> Some True"
    by simp
  have e: "Buffer_from_string test_env ''hello'' (JStr ''utf8'') = Inr [104, 101, 108, 108, 111]"
    by (simp add: test_env_fields utf8_only_def)
  then have e': "Buffer_from_string test_env ''hello'' (get_prop (?h1 ! 0) ''encoding'') =
      Inr [104, 101, 108, 108, 111]"
    by (simp add: get_prop_def own_prop_def)
  from string_memory_delegation [OF a n p np f probe e', of 0]
  have "\<exists>evs. from_fuel 1 test_env (JStr ''hello'') JUndefined (initial_state []) =
     Some (Return (JObj 2),
           \<lparr>heap = [\<lparr>kind = Plain, props = [''encoding'' \<mapsto> JStr ''utf8''],
                 extensible = True, read_only = []\<rparr>,
                    new_buffer [104, 101, 108, 108, 111],
                    echo_handle memory_fn [JObj 1]],
            providers = initial_providers,
            trace = evs\<rparr>)"
    by (simp del: from_fuel.simps
        add: initial_state_def invoke_def registry_get_def initial_providers_def
          test_env_fields echo_call_def numeral_2_eq_2)
  with a n p nf e show ?thesis by simp
qed

text \<open>
  C2 as stated fails for an encoding name \<^verbatim>\<open>Buffer.from\<close> does not know: the conversion
  throws a \<^verbatim>\<open>TypeError\<close> and no provider is called.
\<close>

theorem unknown_encoding_counterexample:
  "from_fuel 1 test_env (JStr ''hello'') (JStr ''bogus'') (initial_state []) =
     Some (Raised TypeError,
           \<lparr>heap = [\<lparr>kind = Plain, props = [''encoding'' \<mapsto> JStr ''bogus''],
                 extensible = True, read_only = []\<rparr>],
            providers = initial_providers,
            trace = [FsAccess ''hello'', DebugLog]\<rparr>)"
  by (simp add: rule_defs initial_state_def test_env_fields test_url_parse_def utf8_only_def)

text \<open>
  C3, as the code has it. A number that is not \<^verbatim>\<open>NaN\<close>, is at least zero and at most
  the largest buffer length, and for which the memory can be had, is dispatched to the
  \<open>memory\<close> entry with a new zero-filled buffer whose length is the integer part of the
  number: exactly \<open>n\<close> bytes for a natural number \<open>n\<close>. Above the largest length, for
  \<^verbatim>\<open>Infinity\<close>, and when the allocation fails, \<^verbatim>\<open>Buffer.alloc\<close> throws a \<^verbatim>\<open>RangeError\<close>,
  which the call raises without having called a provider. A negative number,
  \<^verbatim>\<open>-Infinity\<close> and \<^verbatim>\<open>NaN\<close> go to the default provider with the input and the options.
\<close>

theorem number_input_rule:
  assumes "normalize_opts optsOrEncoding (heap st) = (oa, h1)"
  shows "(0 \<le> q \<and> q \<le> of_nat (kMaxLength env) \<and> can_allocate env (nat \<lfloor>q\<rfloor>) \<longrightarrow>
            from_fuel (Suc k) env (JNum (Fin q)) optsOrEncoding st =
              Some (invoke env (registry_get (providers st) ''memory'') [JObj (length h1)]
                      (st\<lparr>heap := h1 @ [new_buffer (replicate (nat \<lfloor>q\<rfloor>) 0)]\<rparr>)))
       \<and> (n \<le> kMaxLength env \<and> can_allocate env n \<longrightarrow>
            from_fuel (Suc k) env (JNum (Fin (of_nat n))) optsOrEncoding st =
              Some (invoke env (registry_get (providers st) ''memory'') [JObj (length h1)]
                      (st\<lparr>heap := h1 @ [new_buffer (replicate n 0)]\<rparr>)))
       \<and> (0 \<le> q \<and> (of_nat (kMaxLength env) < q \<or> \<not> can_allocate env (nat \<lfloor>q\<rfloor>)) \<longrightarrow>
            from_fuel (Suc k) env (JNum (Fin q)) optsOrEncoding st =
              Some (Raised RangeError, st\<lparr>heap := h1\<rparr>))
       \<and> from_fuel (Suc k) env (JNum PosInf) optsOrEncoding st =
              Some (Raised RangeError, st\<lparr>heap := h1\<rparr>)
       \<and> (q < 0 \<longrightarrow>
            from_fuel (Suc k) env (JNum (Fin q)) optsOrEncoding st =
              Some (default_rule env (JNum (Fin q)) oa (st\<lparr>heap := h1\<rparr>)))
       \<and> from_fuel (Suc k) env (JNum NaN) optsOrEncoding st =
              Some (default_rule env (JNum NaN) oa (st\<lparr>heap := h1\<rparr>))
       \<and> from_fuel (Suc k) env (JNum NegInf) optsOrEncoding st =
              Some (default_rule env (JNum NegInf) oa (st\<lparr>heap := h1\<rparr>))"
proof -
  note body = from_body_number [OF assms, of env]
  have in_range: "0 \<le> q \<and> q \<le> of_nat (kMaxLength env) \<and> can_allocate env (nat \<lfloor>q\<rfloor>) \<longrightarrow>
            from_fuel (Suc k) env (JNum (Fin q)) optsOrEncoding st =
              Some (invoke env (registry_get (providers st) ''memory'') [JObj (length h1)]
                      (st\<lparr>heap := h1 @ [new_buffer (replicate (nat \<lfloor>q\<rfloor>) 0)]\<rparr>))" for q
    by (simp add: body ge_zero_def number_rule_def Buffer_alloc_def memory_from_def)
  have "n \<le> kMaxLength env \<and> can_allocate env n \<longrightarrow>
            from_fuel (Suc k) env (JNum (Fin (of_nat n))) optsOrEncoding st =
              Some (invoke env (registry_get (providers st) ''memory'') [JObj (length h1)]
                      (st\<lparr>heap := h1 @ [new_buffer (replicate n 0)]\<rparr>))"
    using in_range [of "of_nat n"] by simp
  moreover have "0 \<le> q \<and> (of_nat (kMaxLength env) < q \<or> \<not> can_allocate env (nat \<lfloor>q\<rfloor>)) \<longrightarrow>
            from_fuel (Suc k) env (JNum (Fin q)) optsOrEncoding st =
              Some (Raised RangeError, st\<lparr>heap := h1\<rparr>)"
    by (auto simp: body ge_zero_def number_rule_def Buffer_alloc_def memory_from_def)
  moreover have "from_fuel (Suc k) env (JNum PosInf) optsOrEncoding st =
              Some (Raised RangeError, st\<lparr>heap := h1\<rparr>)"
    by (simp add: body ge_zero_def number_rule_def Buffer_alloc_def memory_from_def)
  moreover have "q < 0 \<longrightarrow>
            from_fuel (Suc k) env (JNum (Fin q)) optsOrEncoding st =
              Some (default_rule env (JNum (Fin q)) oa (st\<lparr>heap := h1\<rparr>))"
    by (simp add: body ge_zero_def)
  moreover have "from_fuel (Suc k) env (JNum NaN) optsOrEncoding st =
              Some (default_rule env (JNum NaN) oa (st\<lparr>heap := h1\<rparr>))"
    by (simp add: body)
  moreover have "from_fuel (Suc k) env (JNum NegInf) optsOrEncoding st =
              Some (default_rule env (JNum NegInf) oa (st\<lparr>heap := h1\<rparr>))"
    by (simp add: body ge_zero_def)
  ultimately show ?thesis
    using in_range [of q] by (intro conjI)
qed

theorem number_input_rule_witness:
  "(0::rat) \<le> 3 \<and> (3::rat) \<le> of_nat (kMaxLength test_env) \<and> can_allocate test_env 3 \<and>
   (-1::rat) < 0 \<and>
   (0::rat) \<le> 1099511627776 \<and> \<not> can_allocate test_env 1099511627776 \<and>
   normalize_opts JUndefined (heap (initial_state [])) =
     (0, [\<lparr>kind = Plain, props = [''encoding'' \<mapsto> JStr ''utf8''],
             extensible = True, read_only = []\<rparr>]) \<and>
   from_fuel 1 test_env (JNum (Fin 3)) JUndefined (initial_state []) =
     Some (Return (JObj 2),
           initial_state [\<lparr>kind = Plain, props = [''encoding'' \<mapsto> JStr ''utf8''],
                             extensible = True, read_only = []\<rparr>,
                          new_buffer [0, 0, 0],
                          echo_handle memory_fn [JObj 1]]) \<and>
   from_fuel 1 test_env (JNum (Fin (-1))) JUndefined (initial_state []) =
     Some (Return (JObj 1),
           initial_state [\<lparr>kind = Plain, props = [''encoding'' \<mapsto> JStr ''utf8''],
                             extensible = True, read_only = []\<rparr>,
                          echo_handle memory_fn [JNum (Fin (-1)), JObj 0]]) \<and>
   from_fuel 1 test_env (JNum (Fin 1099511627776)) JUndefined (initial_state []) =
     Some (Raised RangeError,
           initial_state [\<lparr>kind = Plain, props = [''encoding'' \<mapsto> JStr ''utf8''],
                             extensible = True, read_only = []\<rparr>])"
proof -
  let ?opts = "\<lparr>kind = Plain, props = [''encoding'' \<mapsto> JStr ''utf8''],
                 extensible = True, read_only = []\<rparr>"
  have n: "normalize_opts JUndefined (heap (initial_state [])) = (0, [?opts])"
    by (simp add: initial_state_def normalize_absent)
  have r: "(0::rat) \<le> 3 \<and> (3::rat) \<le> of_nat (kMaxLength test_env) \<and> can_allocate test_env 3"
    by (simp add: test_env_fields)
  have fl: "nat \<lfloor>3::rat\<rfloor> = 3" "nat \<lfloor>1099511627776::rat\<rfloor> = 1099511627776"
    by simp_all
  have m: "(-1::rat) < 0" by simp
  have big: "(0::rat) \<le> 1099511627776 \<and> \<not> can_allocate test_env 1099511627776"
    by (simp add: test_env_fields)
  have three: "replicate 3 (0::byte) = [0, 0, 0]"
    by (simp add: numeral_3_eq_3)
  from number_input_rule [OF n, of 3 test_env 0 0] r
  have a: "from_fuel 1 test_env (JNum (Fin 3)) JUndefined (initial_state []) =
     Some (Return (JObj 2),
           initial_state [?opts, new_buffer [0, 0, 0], echo_handle memory_fn [JObj 1]])"
    by (simp del: from_fuel.simps
        add: three initial_state_def invoke_def registry_get_def initial_providers_def
          test_env_fields echo_call_def numeral_2_eq_2)
  from number_input_rule [OF n, of "-1" test_env 0 0] m
  have b: "from_fuel 1 test_env (JNum (Fin (-1))) JUndefined (initial_state []) =
     Some (Return (JObj 1),
           initial_state [?opts, echo_handle memory_fn [JNum (Fin (-1)), JObj 0]])"
    by (simp del: from_fuel.simps
        add: default_rule_def initial_state_def invoke_def registry_get_def
          initial_providers_def test_env_fields echo_call_def)
  from number_input_rule [OF n, of 1099511627776 test_env 0 0] big
  have c: "from_fuel 1 test_env (JNum (Fin 1099511627776)) JUndefined (initial_state []) =
     Some (Raised RangeError, initial_state [?opts])"
    by (simp del: from_fuel.simps add: initial_state_def fl)
  from r m big n a b c show ?thesis by simp
qed

text \<open>
  C3 as stated fails: \<open>2 ^ 53\<close> is a non-negative integer and \<^verbatim>\<open>Infinity\<close> is a
  well-formed number at least zero, and for neither does the dispatcher reach the memory
  provider.
\<close>

theorem number_beyond_max_length_counterexample:
  "from_fuel 1 test_env (JNum (Fin 9007199254740992)) JUndefined (initial_state []) =
     Some (Raised RangeError,
           initial_state [\<lparr>kind = Plain, props = [''encoding'' \<mapsto> JStr ''utf8''],
                             extensible = True, read_only = []\<rparr>]) \<and>
   from_fuel 1 test_env (JNum PosInf) JUndefined (initial_state []) =
     Some (Raised RangeError,
           initial_state [\<lparr>kind = Plain, props = [''encoding'' \<mapsto> JStr ''utf8''],
                             extensible = True, read_only = []\<rparr>])"
  by (simp add: from_body_def initial_state_def normalize_absent isNumber_def ge_zero_def
      number_rule_def Buffer_alloc_def memory_from_def test_env_fields)

text \<open>
  C4, as the code has it. The test is \<^verbatim>\<open>input.length && true === opts.file\<close>, after
  \<^verbatim>\<open>url.parse(input)\<close> has returned: a non-empty string dispatched with an options
  object whose \<open>file\<close> is exactly \<open>true\<close> goes to the \<open>file\<close> entry of the registry with
  the string and the options, whatever the parse found. The rule does not fire on the
  empty string.
\<close>

theorem file_flag_delegation:
  assumes "s \<noteq> []"
    and "get_prop (heap st ! oa) ''file'' = JBool True"
    and "url_parse env s = Inr u"
  shows "from_fuel (Suc k) env (JStr s) (JObj oa) st =
           Some (invoke env (registry_get (providers st) ''file'') [JStr s, JObj oa]
                   (st\<lparr>heap := default_encoding oa (heap st)\<rparr>))
         \<and> file_flag_rule env [] oa st = (None, st)"
proof -
  have flag: "get_prop (default_encoding oa (heap st) ! oa) ''file'' = JBool True"
    using assms(2) by (simp add: get_prop_default_encoding)
  have "string_input env s oa (st\<lparr>heap := default_encoding oa (heap st)\<rparr>) =
          (case invoke env (registry_get (providers st) ''file'') [JStr s, JObj oa]
                  (st\<lparr>heap := default_encoding oa (heap st)\<rparr>) of
             (out, st') \<Rightarrow> (Some out, st'))"
    using assms(1,3) flag by (simp add: string_input_def file_flag_rule_def split: prod.splits)
  then have "from_body env (JStr s) (JObj oa) st =
          Inl (invoke env (registry_get (providers st) ''file'') [JStr s, JObj oa]
                 (st\<lparr>heap := default_encoding oa (heap st)\<rparr>))"
    by (simp add: from_body_string [OF normalize_opts_object] split: prod.splits)
  then show ?thesis
    by (simp add: file_flag_rule_def)
qed

theorem file_flag_delegation_witness:
  "''_hello.txt'' \<noteq> [] \<and>
   get_prop (heap (initial_state [\<lparr>kind = Plain, props = [''file'' \<mapsto> JBool True],
         extensible = True, read_only = []\<rparr>]) ! 0) ''file'' = JBool True \<and>
   url_parse test_env ''_hello.txt'' = Inr \<lparr>protocol = None, pathname = Some ''_hello.txt''\<rparr> \<and>
   from_fuel 1 test_env (JStr ''_hello.txt'') (JObj 0)
       (initial_state [\<lparr>kind = Plain, props = [''file'' \<mapsto> JBool True],
             extensible = True, read_only = []\<rparr>]) =
     Some (Return (JObj 1),
           initial_state
             [\<lparr>kind = Plain, props = [''file'' \<mapsto> JBool True, ''encoding'' \<mapsto> JStr ''utf8''],
                   extensible = True, read_only = []\<rparr>,
              echo_handle file_fn [JStr ''_hello.txt'', JObj 0]])"
proof -
  let ?st = "initial_state [\<lparr>kind = Plain, props = [''file'' \<mapsto> JBool True],
        extensible = True, read_only = []\<rparr>]"
  have a: "''_hello.txt'' \<noteq> []" by simp
  have b: "get_prop (heap ?st ! 0) ''file'' = JBool True"
    by (simp add: initial_state_def get_prop_def own_prop_def)
  have c: "url_parse test_env ''_hello.txt'' = Inr \<lparr>protocol = None, pathname = Some ''_hello.txt''\<rparr>"
    by (simp add: test_env_fields test_url_parse_plain)
  from file_flag_delegation [OF a b c, of 0]
  have "from_fuel 1 test_env (JStr ''_hello.txt'') (JObj 0) ?st =
     Some (Return (JObj 1),
           initial_state
             [\<lparr>kind = Plain, props = [''file'' \<mapsto> JBool True, ''encoding'' \<mapsto> JStr ''utf8''],
                   extensible = True, read_only = []\<rparr>,
              echo_handle file_fn [JStr ''_hello.txt'', JObj 0]])"
    by (simp del: from_fuel.simps
        add: initial_state_def invoke_def registry_get_def initial_providers_def
          test_env_fields echo_call_def default_encoding_def assign_prop_def can_assign_def get_prop_def own_prop_def
          set_prop_def DEFAULT_ENCODING_def)
  with a b c show ?thesis by simp
qed

text \<open>
  C4 as stated fails on the empty string: with \<open>file\<close> set to \<open>true\<close> it is probed as a
  path, found not to be a file, and handed with the options to the default provider
  (which \<^verbatim>\<open>providers.js\<close> aliases to the memory provider), not to the file provider.
\<close>

theorem empty_string_file_flag_counterexample:
  "from_fuel 1 test_env (JStr []) (JObj 0)
       (initial_state [\<lparr>kind = Plain, props = [''file'' \<mapsto> JBool True],
             extensible = True, read_only = []\<rparr>]) =
     Some (Return (JObj 1),
           \<lparr>heap =
              [\<lparr>kind = Plain, props = [''file'' \<mapsto> JBool True, ''encoding'' \<mapsto> JStr ''utf8''],
                    extensible = True, read_only = []\<rparr>,
               echo_handle memory_fn [JStr [], JObj 0]],
            providers = initial_providers,
            trace = [FsAccess [], DebugLog]\<rparr>)
   \<and> memory_fn \<noteq> file_fn"
  by (simp add: rule_defs initial_state_def test_env_fields test_url_parse_def
      initial_providers_def echo_call_def memory_fn_def file_fn_def)

text \<open>
  C5. A non-null object that is not buffer-like is returned as it is (the same
  reference, no call) when one of \<open>readable\<close>, \<open>writable\<close>, \<open>statable\<close>, \<open>deletable\<close> is
  truthy, and is otherwise passed to the storage constructor \<^verbatim>\<open>ras\<close>, whose result is
  returned.
\<close>

theorem object_passthrough_or_wrap:
  assumes "a < length (heap st)"
    and "\<not> isBufferLike (heap st) (JObj a)"
    and "normalize_opts optsOrEncoding (heap st) = (oa, h1)"
  shows "from_fuel (Suc k) env (JObj a) optsOrEncoding st =
           Some (if truthy (get_prop (heap st ! a) ''readable'')
                    \<or> truthy (get_prop (heap st ! a) ''writable'')
                    \<or> truthy (get_prop (heap st ! a) ''statable'')
                    \<or> truthy (get_prop (heap st ! a) ''deletable'')
                 then (Return (JObj a), st\<lparr>heap := h1\<rparr>)
                 else invoke env (JFun (ras env)) [JObj a] (st\<lparr>heap := h1\<rparr>))"
proof -
  have nb: "\<not> isBufferLike h1 (JObj a)"
    using isBufferLike_normalize [OF assms(3,1)] assms(2) by simp
  have flags: "get_prop (h1 ! a) ''readable'' = get_prop (heap st ! a) ''readable''"
    "get_prop (h1 ! a) ''writable'' = get_prop (heap st ! a) ''writable''"
    "get_prop (h1 ! a) ''statable'' = get_prop (heap st ! a) ''statable''"
    "get_prop (h1 ! a) ''deletable'' = get_prop (heap st ! a) ''deletable''"
    using normalize_opts_get_prop [OF assms(3,1)] by simp_all
  have "from_body env (JObj a) optsOrEncoding st = Inl (object_rule env (JObj a) (st\<lparr>heap := h1\<rparr>))"
    using from_body_object [OF assms(3)] nb by simp
  then show ?thesis
    by (simp add: object_rule_def flags)
qed

theorem object_passthrough_or_wrap_witness:
  "0 < length (heap (initial_state [\<lparr>kind = Plain, props = [''readable'' \<mapsto> JBool True],
        extensible = True, read_only = []\<rparr>])) \<and>
   \<not> isBufferLike (heap (initial_state [\<lparr>kind = Plain, props = [''readable'' \<mapsto> JBool True],
         extensible = True, read_only = []\<rparr>])) (JObj 0) \<and>
   from_fuel 1 test_env (JObj 0) JUndefined
       (initial_state [\<lparr>kind = Plain, props = [''readable'' \<mapsto> JBool True],
             extensible = True, read_only = []\<rparr>]) =
     Some (Return (JObj 0),
           initial_state [\<lparr>kind = Plain, props = [''readable'' \<mapsto> JBool True],
                 extensible = True, read_only = []\<rparr>,
                          \<lparr>kind = Plain, props = [''encoding'' \<mapsto> JStr ''utf8''],
                                extensible = True, read_only = []\<rparr>])"
proof -
  let ?st = "initial_state [\<lparr>kind = Plain, props = [''readable'' \<mapsto> JBool True],
        extensible = True, read_only = []\<rparr>]"
  have a: "0 < length (heap ?st)" by (simp add: initial_state_def)
  have b: "\<not> isBufferLike (heap ?st) (JObj 0)"
    by (simp add: initial_state_def isBufferLike_def get_prop_def own_prop_def)
  have n: "normalize_opts JUndefined (heap ?st) =
             (1, [\<lparr>kind = Plain, props = [''readable'' \<mapsto> JBool True],
                   extensible = True, read_only = []\<rparr>,
                  \<lparr>kind = Plain, props = [''encoding'' \<mapsto> JStr ''utf8''],
                        extensible = True, read_only = []\<rparr>])"
    by (simp add: rule_defs initial_state_def)
  from object_passthrough_or_wrap [OF a b n, of 0 test_env] a b show ?thesis
    by (simp add: initial_state_def get_prop_def own_prop_def)
qed




text \<open>
  C7, as the code has it. The normalisation has no error result. A string argument gives
  a new record with that string as its only field, an object is used as it is, anything
  else gives a new empty record; an \<open>encoding\<close> that is missing, empty or not a string is
  then assigned \<^verbatim>\<open>'utf8'\<close>. The new records always take the assignment. Whenever the
  record takes it (it is extensible, or has a writable \<open>encoding\<close>), the options in effect
  when classification begins have an \<open>encoding\<close> that is a non-empty string; an
  \<open>encoding\<close> that already is one is kept. A caller's record that does not take the
  assignment is left as it is.
\<close>

theorem normalize_opts_encoding_nonempty:
  assumes "valid_ref h optsOrEncoding"
  shows "\<exists>oa h0. select_opts optsOrEncoding h = (oa, h0) \<and> oa < length h0
           \<and> (\<forall>s. optsOrEncoding = JStr s \<longrightarrow>
                 oa = length h
                 \<and> h0 = h @ [\<lparr>kind = Plain, props = [''encoding'' \<mapsto> JStr s],
                               extensible = True, read_only = []\<rparr>])
           \<and> (\<forall>a. optsOrEncoding = JObj a \<longrightarrow> oa = a \<and> h0 = h)
           \<and> (\<not> is_string optsOrEncoding \<and> \<not> is_object optsOrEncoding \<longrightarrow>
                 oa = length h
                 \<and> h0 = h @ [\<lparr>kind = Plain, props = Map.empty,
                               extensible = True, read_only = []\<rparr>])
           \<and> normalize_opts optsOrEncoding h = (oa, default_encoding oa h0)
           \<and> (\<not> is_object optsOrEncoding \<longrightarrow> can_assign (h0 ! oa) ''encoding'')
           \<and> (can_assign (h0 ! oa) ''encoding'' \<longrightarrow>
                 (\<not> truthy (get_prop (h0 ! oa) ''encoding'')
                    \<or> \<not> is_string (get_prop (h0 ! oa) ''encoding'') \<longrightarrow>
                    get_prop (default_encoding oa h0 ! oa) ''encoding'' = JStr DEFAULT_ENCODING)
                 \<and> (\<exists>e. get_prop (default_encoding oa h0 ! oa) ''encoding'' = JStr e \<and> e \<noteq> []))
           \<and> (truthy (get_prop (h0 ! oa) ''encoding'')
                \<and> is_string (get_prop (h0 ! oa) ''encoding'') \<longrightarrow>
                 default_encoding oa h0 = h0)
           \<and> (\<not> can_assign (h0 ! oa) ''encoding'' \<longrightarrow> default_encoding oa h0 = h0)"
proof -
  obtain oa h0 where sel: "select_opts optsOrEncoding h = (oa, h0)"
    by (cases "select_opts optsOrEncoding h")
  have valid: "oa < length h0"
    using sel assms by (auto simp: select_opts_def split: jsval.splits)
  have shape: "(\<forall>s. optsOrEncoding = JStr s \<longrightarrow>
                 oa = length h
                 \<and> h0 = h @ [\<lparr>kind = Plain, props = [''encoding'' \<mapsto> JStr s],
                               extensible = True, read_only = []\<rparr>])
           \<and> (\<forall>a. optsOrEncoding = JObj a \<longrightarrow> oa = a \<and> h0 = h)
           \<and> (\<not> is_string optsOrEncoding \<and> \<not> is_object optsOrEncoding \<longrightarrow>
                 oa = length h
                 \<and> h0 = h @ [\<lparr>kind = Plain, props = Map.empty,
                               extensible = True, read_only = []\<rparr>])"
    using sel by (cases optsOrEncoding) (auto simp: select_opts_def)
  have norm: "normalize_opts optsOrEncoding h = (oa, default_encoding oa h0)"
    using sel by (simp add: normalize_opts_def)
  have fresh: "\<not> is_object optsOrEncoding \<longrightarrow> can_assign (h0 ! oa) ''encoding''"
    using sel by (cases optsOrEncoding) (auto simp: select_opts_def can_assign_def)
  have dflt: "can_assign (h0 ! oa) ''encoding'' \<longrightarrow>
                 (\<not> truthy (get_prop (h0 ! oa) ''encoding'')
                    \<or> \<not> is_string (get_prop (h0 ! oa) ''encoding'') \<longrightarrow>
                    get_prop (default_encoding oa h0 ! oa) ''encoding'' = JStr DEFAULT_ENCODING)
                 \<and> (\<exists>e. get_prop (default_encoding oa h0 ! oa) ''encoding'' = JStr e \<and> e \<noteq> [])"
    using valid default_encoding_nonempty [OF valid]
    by (simp add: default_encoding_def assign_prop_def get_prop_set_prop_encoding)
  have kept: "truthy (get_prop (h0 ! oa) ''encoding'')
                \<and> is_string (get_prop (h0 ! oa) ''encoding'') \<longrightarrow>
                 default_encoding oa h0 = h0"
    by (simp add: default_encoding_kept)
  have dropped: "\<not> can_assign (h0 ! oa) ''encoding'' \<longrightarrow> default_encoding oa h0 = h0"
    by (simp add: default_encoding_dropped)
  show ?thesis
    apply (rule exI [of _ oa], rule exI [of _ h0])
    using sel valid shape norm fresh dflt kept dropped
    apply simp
    done
qed

text \<open>
  The empty string as encoding is replaced by the default, another string is kept, and
  the caller's heap is extended by the new record.
\<close>

theorem normalize_opts_encoding_nonempty_witness:
  "valid_ref [empty_object] (JStr []) \<and>
   normalize_opts (JStr []) [empty_object] =
     (1, [empty_object,
          \<lparr>kind = Plain, props = [''encoding'' \<mapsto> JStr ''utf8''],
             extensible = True, read_only = []\<rparr>]) \<and>
   normalize_opts (JStr ''hex'') [empty_object] =
     (1, [empty_object,
          \<lparr>kind = Plain, props = [''encoding'' \<mapsto> JStr ''hex''],
             extensible = True, read_only = []\<rparr>]) \<and>
   (\<exists>oa h0. select_opts (JStr []) [empty_object] = (oa, h0) \<and>
      can_assign (h0 ! oa) ''encoding'' \<and>
      (\<exists>e. get_prop (default_encoding oa h0 ! oa) ''encoding'' = JStr e \<and> e \<noteq> []))"
proof -
  have v: "valid_ref [empty_object] (JStr [])" by simp
  from normalize_opts_encoding_nonempty [OF v]
  have "\<exists>oa h0. select_opts (JStr []) [empty_object] = (oa, h0) \<and>
      can_assign (h0 ! oa) ''encoding'' \<and>
      (\<exists>e. get_prop (default_encoding oa h0 ! oa) ''encoding'' = JStr e \<and> e \<noteq> [])"
    by (elim exE conjE) (simp del: select_opts_def)
  moreover have "normalize_opts (JStr []) [empty_object] =
     (1, [empty_object,
          \<lparr>kind = Plain, props = [''encoding'' \<mapsto> JStr ''utf8''],
             extensible = True, read_only = []\<rparr>])"
    by (simp add: normalize_opts_def select_opts_def default_encoding_def assign_prop_def
        can_assign_def get_prop_def own_prop_def set_prop_def DEFAULT_ENCODING_def)
  moreover have "normalize_opts (JStr ''hex'') [empty_object] =
     (1, [empty_object,
          \<lparr>kind = Plain, props = [''encoding'' \<mapsto> JStr ''hex''],
             extensible = True, read_only = []\<rparr>])"
    by (simp add: normalize_opts_def select_opts_def default_encoding_def assign_prop_def
        can_assign_def get_prop_def own_prop_def set_prop_def DEFAULT_ENCODING_def)
  ultimately show ?thesis
    using v by (intro conjI)
qed

text \<open>
  C7 as stated fails for a record that rejects the write: with
  \<^verbatim>\<open>Object.freeze({})\<close> as options the assignment is dropped, and classification begins
  with \<open>encoding\<close> undefined.
\<close>

theorem frozen_options_counterexample:
  "valid_ref [\<lparr>kind = Plain, props = Map.empty,
        extensible = False, read_only = []\<rparr>] (JObj 0) \<and>
   normalize_opts (JObj 0)
       [\<lparr>kind = Plain, props = Map.empty, extensible = False, read_only = []\<rparr>] =
     (0, [\<lparr>kind = Plain, props = Map.empty,
           extensible = False, read_only = []\<rparr>]) \<and>
   get_prop \<lparr>kind = Plain, props = Map.empty,
         extensible = False, read_only = []\<rparr> ''encoding''
     = JUndefined \<and>
   \<not> is_string JUndefined"
  by (simp add: normalize_opts_def select_opts_def default_encoding_def assign_prop_def
      can_assign_def get_prop_def own_prop_def)




text \<open>
  C9, as the code has it. The custom-protocol rule tests
  \<^verbatim>\<open>'function' === typeof providers[protocolName]\<close> before it calls. An entry that is
  not a function is therefore never invoked: the string is handled by the string rules
  that follow (the probe, then the in-memory string) and, if none returns, by the default
  provider.
\<close>

theorem non_function_entry_skipped:
  assumes "url_parse env s = Inr u"
    and "protocol u = Some p" and "p \<noteq> []"
    and "\<not> test_https p" and "\<not> test_file p"
    and "providers st (butlast p) = Some v" and "\<not> is_function v"
    and "normalize_opts optsOrEncoding (heap st) = (oa, h1)"
    and "s = [] \<or> get_prop (h1 ! oa) ''file'' \<noteq> JBool True"
  shows "from_fuel (Suc k) env (JStr s) optsOrEncoding st =
           (case string_after_protocol env s oa (st\<lparr>heap := h1\<rparr>) of
              (Some out, st') \<Rightarrow> Some (out, st')
            | (None, st') \<Rightarrow> Some (default_rule env (JStr s) oa st'))"
proof -
  let ?st1 = "st\<lparr>heap := h1\<rparr>"
  have flag: "file_flag_rule env s oa ?st1 = (None, ?st1)"
    using assms(9) by (auto simp: file_flag_rule_def)
  have entry: "registry_get (providers ?st1) (butlast p) = v"
    using assms(6) by (simp add: registry_get_def)
  have proto: "protocol_rules env s u oa ?st1 = (None, ?st1)"
    using assms(2-5,7) entry by (simp add: protocol_rules_def)
  have "string_input env s oa ?st1 = string_after_protocol env s oa ?st1"
    using assms(1) by (simp add: string_input_def flag proto split: prod.splits option.splits)
  then show ?thesis
    by (simp add: from_body_string [OF assms(8)] split: prod.splits option.splits)
qed

theorem non_function_entry_skipped_witness:
  "url_parse test_env ''data:,hello'' = Inr \<lparr>protocol = Some ''data:'', pathname = Some '',hello''\<rparr> \<and>
   \<not> test_https ''data:'' \<and> \<not> test_file ''data:'' \<and>
   \<not> is_function (JStr ''not a function'') \<and>
   from_fuel 1 test_env (JStr ''data:,hello'') (JStr ''utf8'')
       ((initial_state [])\<lparr>providers := initial_providers(''data'' \<mapsto> JStr ''not a function'')\<rparr>) =
     Some (Return (JObj 2),
           \<lparr>heap = [\<lparr>kind = Plain, props = [''encoding'' \<mapsto> JStr ''utf8''],
                 extensible = True, read_only = []\<rparr>,
                    new_buffer [100, 97, 116, 97, 58, 44, 104, 101, 108, 108, 111],
                    echo_handle memory_fn [JObj 1]],
            providers = initial_providers(''data'' \<mapsto> JStr ''not a function''),
            trace = [FsAccess ''data:,hello'', DebugLog]\<rparr>)"
proof -
  let ?st = "(initial_state [])\<lparr>providers := initial_providers(''data'' \<mapsto> JStr ''not a function'')\<rparr>"
  let ?h1 = "[\<lparr>kind = Plain, props = [''encoding'' \<mapsto> JStr ''utf8''],
        extensible = True, read_only = []\<rparr>]"
  let ?u = "\<lparr>protocol = Some ''data:'', pathname = Some '',hello''\<rparr>"
  have p: "url_parse test_env ''data:,hello'' = Inr ?u"
    by (simp add: test_env_fields test_url_parse_plain)
  have pr: "protocol ?u = Some ''data:''" by simp
  have ne: "''data:'' \<noteq> []" by simp
  have nh: "\<not> test_https ''data:''" by (simp add: test_https_def)
  have nfl: "\<not> test_file ''data:''" by (simp add: test_file_def)
  have reg: "providers ?st (butlast ''data:'') = Some (JStr ''not a function'')"
    by (simp add: initial_state_def)
  have nfun: "\<not> is_function (JStr ''not a function'')" by simp
  have n: "normalize_opts (JStr ''utf8'') (heap ?st) = (0, ?h1)"
    by (simp add: initial_state_def normalize_string_empty_heap)
  have fl: "''data:,hello'' = [] \<or> get_prop (?h1 ! 0) ''file'' \<noteq> JBool True"
    by (simp add: get_prop_def own_prop_def)
  from non_function_entry_skipped [OF p pr ne nh nfl reg nfun n fl, of 0]
  have "from_fuel 1 test_env (JStr ''data:,hello'') (JStr ''utf8'') ?st =
     Some (Return (JObj 2),
           \<lparr>heap = [\<lparr>kind = Plain, props = [''encoding'' \<mapsto> JStr ''utf8''],
                 extensible = True, read_only = []\<rparr>,
                    new_buffer [100, 97, 116, 97, 58, 44, 104, 101, 108, 108, 111],
                    echo_handle memory_fn [JObj 1]],
            providers = initial_providers(''data'' \<mapsto> JStr ''not a function''),
            trace = [FsAccess ''data:,hello'', DebugLog]\<rparr>)"
    by (simp del: from_fuel.simps
        add: string_after_protocol_def local_file_rule_def string_memory_rule_def
          memory_from_def log_def initial_state_def invoke_def registry_get_def
          initial_providers_def test_env_fields echo_call_def utf8_only_def get_prop_def
          own_prop_def numeral_2_eq_2)
  with p nh nfl nfun show ?thesis by simp
qed

text \<open>
  C9 as stated fails: with the number 42 registered under \<open>data\<close>, dispatching
  \<^verbatim>\<open>'data:,hello'\<close> throws nothing and returns the memory provider's handle for the
  bytes of the string.
\<close>

theorem non_function_entry_counterexample:
  "from_fuel 1 test_env (JStr ''data:,hello'') JUndefined
       ((initial_state [])\<lparr>providers := initial_providers(''data'' \<mapsto> JNum (Fin 42))\<rparr>) =
     Some (Return (JObj 2),
           \<lparr>heap = [\<lparr>kind = Plain, props = [''encoding'' \<mapsto> JStr ''utf8''],
                 extensible = True, read_only = []\<rparr>,
                    new_buffer [100, 97, 116, 97, 58, 44, 104, 101, 108, 108, 111],
                    echo_handle memory_fn [JObj 1]],
            providers = initial_providers(''data'' \<mapsto> JNum (Fin 42)),
            trace = [FsAccess ''data:,hello'', DebugLog]\<rparr>)"
  by (simp add: rule_defs initial_state_def test_env_fields test_url_parse_def utf8_only_def
      initial_providers_def echo_call_def numeral_2_eq_2)

text \<open>
  C10. The empty array is buffer-like, and dispatching it calls the \<open>memory\<close> entry of
  the registry with a new buffer of no bytes: it is neither wrapped by \<^verbatim>\<open>ras\<close> nor
  handed to the default provider.
\<close>

theorem empty_array_is_buffer_like:
  assumes "a < length (heap st)"
    and "kind (heap st ! a) = Array []"
    and "normalize_opts optsOrEncoding (heap st) = (oa, h1)"
  shows "isBufferLike (heap st) (JObj a) \<and>
         from_fuel (Suc k) env (JObj a) optsOrEncoding st =
           Some (invoke env (registry_get (providers st) ''memory'') [JObj (length h1)]
                   (st\<lparr>heap := h1 @ [new_buffer []]\<rparr>))"
proof -
  have bl: "isBufferLike (heap st) (JObj a)"
    using assms(2) by (simp add: isBufferLike_def)
  then have bl1: "isBufferLike h1 (JObj a)"
    using isBufferLike_normalize [OF assms(3,1)] by simp
  have k1: "kind (h1 ! a) = Array []"
    using normalize_opts_kind [OF assms(3,1)] assms(2) by simp
  have "from_body env (JObj a) optsOrEncoding st = Inl (buffer_rule env (JObj a) oa (st\<lparr>heap := h1\<rparr>))"
    using from_body_object [OF assms(3)] bl1 by simp
  then show ?thesis
    using bl
    by (simp add: buffer_rule_def buffer_bytes_def k1 Buffer_from_object_def copy_bytes_def
        memory_from_def)
qed

theorem empty_array_is_buffer_like_witness:
  "0 < length (heap (initial_state [\<lparr>kind = Array [], props = Map.empty,
        extensible = True, read_only = []\<rparr>])) \<and>
   kind (heap (initial_state [\<lparr>kind = Array [], props = Map.empty,
         extensible = True, read_only = []\<rparr>]) ! 0) = Array [] \<and>
   isBufferLike (heap (initial_state [\<lparr>kind = Array [], props = Map.empty,
         extensible = True, read_only = []\<rparr>])) (JObj 0) \<and>
   from_fuel 1 test_env (JObj 0) JUndefined (initial_state [\<lparr>kind = Array [], props = Map.empty,
         extensible = True, read_only = []\<rparr>]) =
     Some (Return (JObj 3),
           initial_state [\<lparr>kind = Array [], props = Map.empty,
                 extensible = True, read_only = []\<rparr>,
                          \<lparr>kind = Plain, props = [''encoding'' \<mapsto> JStr ''utf8''],
                                extensible = True, read_only = []\<rparr>,
                          new_buffer [],
                          echo_handle memory_fn [JObj 2]])"
proof -
  let ?st = "initial_state [\<lparr>kind = Array [], props = Map.empty,
        extensible = True, read_only = []\<rparr>]"
  have a: "0 < length (heap ?st)" by (simp add: initial_state_def)
  have b: "kind (heap ?st ! 0) = Array []" by (simp add: initial_state_def)
  have n: "normalize_opts JUndefined (heap ?st) =
             (1, [\<lparr>kind = Array [], props = Map.empty,
                   extensible = True, read_only = []\<rparr>,
                  \<lparr>kind = Plain, props = [''encoding'' \<mapsto> JStr ''utf8''],
                        extensible = True, read_only = []\<rparr>])"
    by (simp add: rule_defs initial_state_def)
  from empty_array_is_buffer_like [OF a b n, of 0 test_env] a b show ?thesis
    by (simp add: initial_state_def invoke_def registry_get_def initial_providers_def
        test_env_def echo_call_def numeral_2_eq_2 numeral_3_eq_3)
qed

end
